theory Spec2Isabelle
  imports Complex_Main
begin

section \<open>The AEC3 subtractor: data model\<close>

text \<open>
  This theory embeds \<^verbatim>\<open>modules/audio_processing/aec3/subtractor.cc\<close>: the file-local
  function \<^verbatim>\<open>PredictionError\<close> and the methods \<^verbatim>\<open>Subtractor::HandleEchoPathChange\<close>
  and \<^verbatim>\<open>Subtractor::Process\<close>.

  A C++ \<^verbatim>\<open>float\<close> sample of a block or of a spectrum is modelled as a real number,
  and the arithmetic on samples in the prediction-error stage is exact. The energies
  of the convergence check of \<^verbatim>\<open>Subtractor::Process\<close> are computed as the source
  computes them, in binary32 and binary64 arithmetic with rounding to nearest, ties to
  even (section \<open>Floating-point arithmetic\<close>). A \<^verbatim>\<open>std::array<float, N>\<close> and an
  \<^verbatim>\<open>rtc::ArrayView<const float>\<close> are lists of samples.
\<close>

type_synonym float = real

text \<open>
  Modelled from the spec: the header \<^verbatim>\<open>aec3_common.h\<close> that declares the size
  constants is not among the sources. The spec's data model has a spectrum of
  block-size + 1 bins, which is the source's \<^verbatim>\<open>kFftLengthBy2Plus1\<close>, with a block of
  64 samples: \<^verbatim>\<open>kFftLengthBy2\<close> is the block size, 64.
\<close>

definition kFftLengthBy2 :: nat where
  "kFftLengthBy2 = 64"

text \<open>
  Modelled from the spec: the number of bins of a spectrum, block-size + 1.
\<close>

definition kFftLengthBy2Plus1 :: nat where
  "kFftLengthBy2Plus1 = kFftLengthBy2 + 1"

text \<open>
  Modelled from the spec: the length of the buffer of the inverse transform,
  2 \<times> block-size.
\<close>

definition kFftLength :: nat where
  "kFftLength = 2 * kFftLengthBy2"

text \<open>
  Modelled from the spec: the number of samples of a block, 64.
\<close>

definition kBlockSize :: nat where
  "kBlockSize = kFftLengthBy2"

text \<open>\<^verbatim>\<open>FftData\<close>: the real and the imaginary parts of a spectrum, one entry per bin.\<close>

record FftData =
  re :: "float list"
  im :: "float list"

text \<open>\<^verbatim>\<open>Aec3Fft::Window\<close>, with the two enumerators that the source uses.\<close>

datatype Window = kRectangular | kHanning

text \<open>
  \<^verbatim>\<open>Aec3Fft\<close> is a stateless collaborator whose code is not among the sources. It is
  taken as a parameter: a record of its two methods, with the result that the source
  receives through an output pointer returned as a value.
\<close>

record Aec3Fft =
  Ifft :: "FftData \<Rightarrow> float list"
  ZeroPaddedFft :: "float list \<Rightarrow> Window \<Rightarrow> FftData"

text \<open>
  Modelled from the spec: the declaration of \<^verbatim>\<open>EchoPathVariability\<close> is not among the
  sources. The source reads its field \<^verbatim>\<open>delay_change\<close> and names four enumerators
  of \<^verbatim>\<open>DelayAdjustment\<close>; the spec lists the categories buffer flush, delay reset,
  newly detected delay, buffer readjustment, or none.
\<close>

datatype DelayAdjustment =
  kNone | kBufferReadjustment | kBufferFlush | kDelayReset | kNewDetectedDelay

record EchoPathVariability =
  delay_change :: DelayAdjustment

text \<open>
  Modelled from the spec: the declaration of \<^verbatim>\<open>SubtractorOutput\<close> is not among the
  sources. The fields \<open>s_main\<close>, \<open>e_main\<close>, \<open>e_shadow\<close>, \<open>E_main\<close>,
  \<open>E_main_nonwindowed\<close>, \<open>E2_main\<close>, \<open>E2_main_nonwindowed\<close> and \<open>E2_shadow\<close>
  are the ones that \<^verbatim>\<open>Subtractor::Process\<close> accesses; the field \<open>E_shadow\<close> is the
  shadow filter's windowed error spectrum that the spec's data model lists in the
  record.
\<close>

record SubtractorOutput =
  s_main :: "float list"
  e_main :: "float list"
  e_shadow :: "float list"
  E_main :: FftData
  E_main_nonwindowed :: FftData
  E_shadow :: FftData
  E2_main :: "float list"
  E2_main_nonwindowed :: "float list"
  E2_shadow :: "float list"

text \<open>
  The collaborators of the subtractor whose code is not among the sources are
  parameters of the model. Their states are type variables: \<open>'f\<close> an
  \<^verbatim>\<open>AdaptiveFirFilter\<close>, \<open>'gm\<close> a \<^verbatim>\<open>MainFilterUpdateGain\<close>, \<open>'gs\<close> a
  \<^verbatim>\<open>ShadowFilterUpdateGain\<close>, \<open>'rb\<close> a \<^verbatim>\<open>RenderBuffer\<close>, \<open>'rsa\<close> a
  \<^verbatim>\<open>RenderSignalAnalyzer\<close>, \<open>'aec\<close> an \<^verbatim>\<open>AecState\<close>, \<open>'dd\<close> the contents of the
  \<^verbatim>\<open>ApmDataDumper\<close> and \<open>'opt\<close> an \<^verbatim>\<open>Aec3Optimization\<close>. Their methods are the
  fields of the following record. A method that the source declares \<^verbatim>\<open>const\<close> returns
  its result only; a method that changes its object returns the new object; a result
  that the source receives through an output pointer is returned as a value.
\<close>

record ('f, 'gm, 'gs, 'rb, 'rsa, 'aec, 'dd, 'opt) collaborators =
  Filter :: "'f \<Rightarrow> 'rb \<Rightarrow> FftData"
  Adapt :: "'f \<Rightarrow> 'rb \<Rightarrow> FftData \<Rightarrow> 'f"
  SizePartitions :: "'f \<Rightarrow> nat"
  DumpFilter :: "'f \<Rightarrow> string \<Rightarrow> 'dd \<Rightarrow> 'dd"
  filter_HandleEchoPathChange :: "'f \<Rightarrow> 'f"
  G_main_Compute ::
    "'gm \<Rightarrow> float list \<Rightarrow> 'rsa \<Rightarrow> SubtractorOutput \<Rightarrow> 'f \<Rightarrow> bool \<Rightarrow> 'gm \<times> FftData"
  G_main_HandleEchoPathChange :: "'gm \<Rightarrow> EchoPathVariability \<Rightarrow> 'gm"
  G_shadow_Compute ::
    "'gs \<Rightarrow> float list \<Rightarrow> 'rsa \<Rightarrow> FftData \<Rightarrow> nat \<Rightarrow> bool \<Rightarrow> 'gs \<times> FftData"
  G_shadow_HandleEchoPathChange :: "'gs \<Rightarrow> 'gs"
  SpectralSum :: "'rb \<Rightarrow> nat \<Rightarrow> float list"
  Spectrum :: "FftData \<Rightarrow> 'opt \<Rightarrow> float list"
  SaturatedCapture :: "'aec \<Rightarrow> bool"
  DumpRaw :: "string \<Rightarrow> float list \<Rightarrow> 'dd \<Rightarrow> 'dd"

text \<open>The members of \<^verbatim>\<open>Subtractor\<close> (the source's names end in an underscore).\<close>

record ('f, 'gm, 'gs, 'dd, 'opt) Subtractor =
  fft :: Aec3Fft
  data_dumper :: 'dd
  optimization :: 'opt
  main_filter :: 'f
  shadow_filter :: 'f
  G_main :: 'gm
  G_shadow :: 'gs
  converged_filter :: bool

section \<open>The prediction-error stage\<close>

text \<open>
  Modelled from the spec: \<^verbatim>\<open>rtc::SafeClamp\<close> (\<^verbatim>\<open>rtc_base/numerics/safe_minmax.h\<close>) is
  not among the sources. The spec has the sample clipped to the closed range between
  the two bounds.
\<close>

definition SafeClamp :: "float \<Rightarrow> float \<Rightarrow> float \<Rightarrow> float" where
  "SafeClamp x lo hi = (if x \<le> lo then lo else if hi \<le> x then hi else x)"

definition kScale :: float where
  "kScale = 1 / real kFftLengthBy2"

text \<open>
  Lines 33 and 34, the \<^verbatim>\<open>std::transform\<close>: it walks \<open>y\<close> and the buffer \<open>tmp\<close> from
  position \<^verbatim>\<open>kFftLengthBy2\<close> on, and writes one difference for each sample of \<open>y\<close>
  from the start of \<open>e\<close>; the samples of \<open>e\<close> behind them keep their values. The
  source's only caller passes a \<open>y\<close> of \<^verbatim>\<open>kBlockSize\<close> samples, so that all of \<open>e\<close> is
  written.
\<close>

definition PredictionError_transform :: "float list \<Rightarrow> float list \<Rightarrow> float list \<Rightarrow> float list" where
  "PredictionError_transform y tmp e =
     (let d = map2 (\<lambda>a b. a - b * kScale) y (drop kFftLengthBy2 tmp)
      in d @ drop (length d) e)"

text \<open>
  \<^verbatim>\<open>PredictionError\<close>. The array \<open>e\<close> is read and written through its pointer, so the
  model takes its old contents and returns the new ones. The pointer \<open>s\<close> may be
  null: \<open>None\<close> is the null pointer, \<open>Some\<close> carries the old contents of the array
  of \<^verbatim>\<open>kBlockSize\<close> samples that it points to.
\<close>

definition PredictionError ::
  "Aec3Fft \<Rightarrow> FftData \<Rightarrow> float list \<Rightarrow> float list \<Rightarrow> float list option
     \<Rightarrow> float list \<times> float list option" where
  "PredictionError fft_arg S y e s =
     (let tmp = Ifft fft_arg S;
          e1 = PredictionError_transform y tmp e;
          s1 = (case s of
                  None \<Rightarrow> None
                | Some _ \<Rightarrow> Some (map (\<lambda>k. kScale * tmp ! (k + kFftLengthBy2)) [0..<kBlockSize]));
          e2 = map (\<lambda>a. SafeClamp a (- 32768) 32767) e1
      in (e2, s1))"

section \<open>Floating-point arithmetic\<close>

text \<open>
  The values of an IEEE 754 binary format: a finite value, which is a real number, the
  two infinities, and NaN. The two zeros are one value, \<open>Finite 0\<close>; no operation of
  this theory tells them apart.
\<close>

datatype fp = Finite real | PInf | NInf | NaN

text \<open>The number of binary digits of a natural number.\<close>

fun bit_length :: "nat \<Rightarrow> nat" where
  "bit_length n = (if n = 0 then 0 else Suc (bit_length (n div 2)))"

declare bit_length.simps [simp del]

definition pow2 :: "int \<Rightarrow> real" where
  "pow2 e = (if 0 \<le> e then 2 ^ nat e else 1 / 2 ^ nat (- e))"

text \<open>The exponent \<open>e\<close> of a real number \<open>x\<close> other than zero: \<open>2^e \<le> |x| < 2^(e+1)\<close>.\<close>

definition fp_exponent :: "real \<Rightarrow> int" where
  "fp_exponent x =
     (if 1 \<le> \<bar>x\<bar> then int (bit_length (nat \<lfloor>\<bar>x\<bar>\<rfloor>)) - 1
      else - int (bit_length (nat (\<lceil>1 / \<bar>x\<bar>\<rceil> - 1))))"

text \<open>The integer nearest to a real number, the even one of the two at a tie.\<close>

definition round_half_even :: "real \<Rightarrow> int" where
  "round_half_even q =
     (let n = \<lfloor>q\<rfloor>; d = q - real_of_int n
      in if d < 1 / 2 then n else if 1 / 2 < d then n + 1 else if even n then n else n + 1)"

text \<open>
  Rounding to nearest, ties to even, into the format with \<open>p\<close> digits of precision
  and exponents of normal numbers from \<open>emin\<close> to \<open>emax\<close>: the real number is rounded
  to a multiple of the unit in its last place, which below the normal numbers is the
  unit of the subnormal numbers, and a result beyond the largest finite value is the
  infinity of its sign.
\<close>

definition fp_round :: "nat \<Rightarrow> int \<Rightarrow> int \<Rightarrow> real \<Rightarrow> fp" where
  "fp_round p emin emax x =
     (if x = 0 then Finite 0
      else
        (let e = max (fp_exponent x) emin;
             ulp = pow2 (e - int p + 1);
             r = real_of_int (round_half_even (x / ulp)) * ulp
         in if pow2 (emax + 1) \<le> \<bar>r\<bar> then (if 0 < x then PInf else NInf) else Finite r))"

text \<open>The C++ \<^verbatim>\<open>float\<close> is binary32 and the C++ \<^verbatim>\<open>double\<close> is binary64.\<close>

definition round_binary32 :: "real \<Rightarrow> fp" where
  "round_binary32 = fp_round 24 (- 126) 127"

definition round_binary64 :: "real \<Rightarrow> fp" where
  "round_binary64 = fp_round 53 (- 1022) 1023"

text \<open>
  The sum and the product of two values, rounded by \<open>rnd\<close>, and the comparison
  \<^verbatim>\<open>>\<close>, which is false when an operand is NaN.
\<close>

fun fp_add :: "(real \<Rightarrow> fp) \<Rightarrow> fp \<Rightarrow> fp \<Rightarrow> fp" where
  "fp_add rnd (Finite x) (Finite y) = rnd (x + y)"
| "fp_add rnd NaN b = NaN"
| "fp_add rnd a NaN = NaN"
| "fp_add rnd PInf NInf = NaN"
| "fp_add rnd NInf PInf = NaN"
| "fp_add rnd PInf b = PInf"
| "fp_add rnd a PInf = PInf"
| "fp_add rnd NInf b = NInf"
| "fp_add rnd a NInf = NInf"

fun fp_mul :: "(real \<Rightarrow> fp) \<Rightarrow> fp \<Rightarrow> fp \<Rightarrow> fp" where
  "fp_mul rnd (Finite x) (Finite y) = rnd (x * y)"
| "fp_mul rnd NaN b = NaN"
| "fp_mul rnd a NaN = NaN"
| "fp_mul rnd (Finite x) PInf = (if x = 0 then NaN else if 0 < x then PInf else NInf)"
| "fp_mul rnd (Finite x) NInf = (if x = 0 then NaN else if 0 < x then NInf else PInf)"
| "fp_mul rnd PInf (Finite y) = (if y = 0 then NaN else if 0 < y then PInf else NInf)"
| "fp_mul rnd NInf (Finite y) = (if y = 0 then NaN else if 0 < y then NInf else PInf)"
| "fp_mul rnd PInf PInf = PInf"
| "fp_mul rnd NInf NInf = PInf"
| "fp_mul rnd PInf NInf = NInf"
| "fp_mul rnd NInf PInf = NInf"

fun fp_gt :: "fp \<Rightarrow> fp \<Rightarrow> bool" where
  "fp_gt (Finite x) (Finite y) = (y < x)"
| "fp_gt NaN b = False"
| "fp_gt a NaN = False"
| "fp_gt PInf PInf = False"
| "fp_gt PInf b = True"
| "fp_gt a PInf = False"
| "fp_gt NInf b = False"
| "fp_gt a NInf = True"

text \<open>
  A sample as a binary32 value: the sample itself when it is a binary32 value, and the
  binary32 value nearest to it otherwise. A literal such as \<^verbatim>\<open>50.f\<close> and the
  conversion of an integer to \<^verbatim>\<open>float\<close> are the same rounding.
\<close>

definition to_binary32 :: "real \<Rightarrow> fp" where
  "to_binary32 x = round_binary32 x"

section \<open>The subtractor\<close>

text \<open>The lambda \<^verbatim>\<open>full_reset\<close> of \<^verbatim>\<open>Subtractor::HandleEchoPathChange\<close>.\<close>

definition full_reset ::
  "('f, 'gm, 'gs, 'rb, 'rsa, 'aec, 'dd, 'opt) collaborators \<Rightarrow> EchoPathVariability
     \<Rightarrow> ('f, 'gm, 'gs, 'dd, 'opt) Subtractor \<Rightarrow> ('f, 'gm, 'gs, 'dd, 'opt) Subtractor" where
  "full_reset env echo_path_variability sub =
     sub\<lparr>main_filter := filter_HandleEchoPathChange env (main_filter sub),
         shadow_filter := filter_HandleEchoPathChange env (shadow_filter sub),
         G_main := G_main_HandleEchoPathChange env (G_main sub) echo_path_variability,
         G_shadow := G_shadow_HandleEchoPathChange env (G_shadow sub),
         converged_filter := False\<rparr>"

definition HandleEchoPathChange ::
  "('f, 'gm, 'gs, 'rb, 'rsa, 'aec, 'dd, 'opt) collaborators \<Rightarrow> EchoPathVariability
     \<Rightarrow> ('f, 'gm, 'gs, 'dd, 'opt) Subtractor \<Rightarrow> ('f, 'gm, 'gs, 'dd, 'opt) Subtractor" where
  "HandleEchoPathChange env echo_path_variability sub =
     (if delay_change echo_path_variability = kBufferFlush
         \<or> delay_change echo_path_variability = kDelayReset
      then full_reset env echo_path_variability sub
      else if delay_change echo_path_variability = kNewDetectedDelay
      then full_reset env echo_path_variability sub
      else if delay_change echo_path_variability = kBufferReadjustment
      then full_reset env echo_path_variability sub
      else sub)"

text \<open>The only failure of the model: a check of a contract that does not hold.\<close>

datatype error = FatalCheckFailure

text \<open>
  Modelled from the spec: the macro \<^verbatim>\<open>RTC_DCHECK_EQ\<close> (\<^verbatim>\<open>rtc_base/checks.h\<close>) is not
  among the sources. The spec has a violated contract halt the call at once, with no
  recovery: the failed check is the error value, and nothing behind it is run.
\<close>

definition RTC_DCHECK_EQ :: "nat \<Rightarrow> nat \<Rightarrow> error + unit" where
  "RTC_DCHECK_EQ a b = (if a = b then Inr () else Inl FatalCheckFailure)"

text \<open>
  The lambda \<^verbatim>\<open>sum_of_squares\<close> of \<^verbatim>\<open>Subtractor::Process\<close>, on two \<^verbatim>\<open>float\<close>
  values: the product is rounded to binary32, and so is the sum (a \<^verbatim>\<open>float\<close>
  expression is evaluated in binary32, operation by operation, with no fused
  multiply-add).
\<close>

definition sum_of_squares :: "fp \<Rightarrow> fp \<Rightarrow> fp" where
  "sum_of_squares a b = fp_add round_binary32 a (fp_mul round_binary32 b b)"

text \<open>
  The call \<^verbatim>\<open>std::accumulate(xs.begin(), xs.end(), 0.f, sum_of_squares)\<close>, which the
  convergence check makes on three blocks: the fold of \<open>sum_of_squares\<close> from the
  left over the samples, from \<^verbatim>\<open>0.f\<close>.
\<close>

definition accumulated_energy :: "float list \<Rightarrow> fp" where
  "accumulated_energy xs = foldl sum_of_squares (Finite 0) (map to_binary32 xs)"

text \<open>
  \<^verbatim>\<open>Subtractor::Process\<close>. The record \<open>output\<close> is the caller's, reached through a
  pointer: the model takes its old contents and returns the new ones beside the new
  subtractor. The bindings follow the statements of the source in their order; a
  primed name is the value of a variable after the statement that writes it. The local
  spectrum that the source calls \<^verbatim>\<open>E_shadow\<close> is \<open>E_shadow_local\<close> here, apart from
  the field of the output record. The buffer \<^verbatim>\<open>S\<close>, which the source writes four
  times (twice under its alias \<^verbatim>\<open>G\<close>), is \<open>S\<close>, \<open>S'\<close>, \<open>G\<close> and \<open>G'\<close>.

  In the convergence check the three energies are \<open>accumulated_energy\<close>. The bound \<^verbatim>\<open>kBlockSize * 50.f * 50.f\<close> is a
  \<^verbatim>\<open>float\<close>. The literals \<^verbatim>\<open>0.3\<close> and \<^verbatim>\<open>0.1\<close> are \<^verbatim>\<open>double\<close>s, so that the two
  products are formed in binary64 and the energies are compared as \<^verbatim>\<open>double\<close>s; the
  conversion of a \<^verbatim>\<open>float\<close> to \<^verbatim>\<open>double\<close> changes no value.
\<close>

definition Process ::
  "('f, 'gm, 'gs, 'rb, 'rsa, 'aec, 'dd, 'opt) collaborators
     \<Rightarrow> ('f, 'gm, 'gs, 'dd, 'opt) Subtractor \<Rightarrow> 'rb \<Rightarrow> float list \<Rightarrow> 'rsa \<Rightarrow> 'aec
     \<Rightarrow> SubtractorOutput
     \<Rightarrow> error + (('f, 'gm, 'gs, 'dd, 'opt) Subtractor \<times> SubtractorOutput)" where
  "Process env sub render_buffer capture render_signal_analyzer aec_state output =
     (case RTC_DCHECK_EQ kBlockSize (length capture) of
        Inl err \<Rightarrow> Inl err
      | Inr _ \<Rightarrow>
         (let y = capture;
              S = Filter env (main_filter sub) render_buffer;
              (e_main', s') = PredictionError (fft sub) S y (e_main output) (Some (s_main output));
              s_main' = (case s' of Some v \<Rightarrow> v | None \<Rightarrow> s_main output);
              E_main' = ZeroPaddedFft (fft sub) e_main' kHanning;
              E_main_nonwindowed' = ZeroPaddedFft (fft sub) e_main' kRectangular;
              S' = Filter env (shadow_filter sub) render_buffer;
              (e_shadow', _) = PredictionError (fft sub) S' y (e_shadow output) None;
              E_shadow_local = ZeroPaddedFft (fft sub) e_shadow' kHanning;
              converged_filter' =
                (if \<not> converged_filter sub then
                   (let e2_main = accumulated_energy e_main';
                        e2_shadow = accumulated_energy e_shadow';
                        y2 = accumulated_energy y
                    in if fp_gt y2
                            (fp_mul round_binary32
                               (fp_mul round_binary32 (to_binary32 (real kBlockSize))
                                  (to_binary32 50))
                               (to_binary32 50))
                       then (fp_gt e2_main (fp_mul round_binary64 (round_binary64 0.3) y2)
                             \<or> fp_gt e2_shadow (fp_mul round_binary64 (round_binary64 0.1) y2))
                       else converged_filter sub)
                 else converged_filter sub);
              output' = output\<lparr>s_main := s_main', e_main := e_main', e_shadow := e_shadow',
                 E_main := E_main', E_main_nonwindowed := E_main_nonwindowed',
                 E2_main := Spectrum env E_main' (optimization sub),
                 E2_main_nonwindowed := Spectrum env E_main_nonwindowed' (optimization sub),
                 E2_shadow := Spectrum env E_shadow_local (optimization sub)\<rparr>;
              X2 = SpectralSum env render_buffer (SizePartitions env (main_filter sub));
              (G_main', G) = G_main_Compute env (G_main sub) X2 render_signal_analyzer output'
                 (main_filter sub) (SaturatedCapture env aec_state);
              main_filter' = Adapt env (main_filter sub) render_buffer G;
              dd1 = DumpRaw env ''aec3_subtractor_G_main'' (re G) (data_dumper sub);
              dd2 = DumpRaw env ''aec3_subtractor_G_main'' (im G) dd1;
              X2' = (if SizePartitions env (shadow_filter sub) \<noteq> SizePartitions env main_filter'
                     then SpectralSum env render_buffer (SizePartitions env (shadow_filter sub))
                     else X2);
              (G_shadow', G') = G_shadow_Compute env (G_shadow sub) X2' render_signal_analyzer
                 E_shadow_local (SizePartitions env (shadow_filter sub))
                 (SaturatedCapture env aec_state);
              shadow_filter' = Adapt env (shadow_filter sub) render_buffer G';
              dd3 = DumpRaw env ''aec3_subtractor_G_shadow'' (re G') dd2;
              dd4 = DumpRaw env ''aec3_subtractor_G_shadow'' (im G') dd3;
              dd5 = DumpFilter env main_filter' ''aec3_subtractor_H_main'' dd4;
              dd6 = DumpFilter env shadow_filter' ''aec3_subtractor_H_shadow'' dd5
          in Inr (sub\<lparr>data_dumper := dd6, main_filter := main_filter',
                       shadow_filter := shadow_filter', G_main := G_main',
                       G_shadow := G_shadow', converged_filter := converged_filter'\<rparr>,
                  output')))"

text \<open>
  A caller of the subtractor makes a sequence of calls of its two public methods, each
  with its own arguments. \<open>run\<close> makes them in their order on one subtractor, and stops
  at the first fatal failure.
\<close>

datatype ('rb, 'rsa, 'aec) call =
  CallProcess 'rb "float list" 'rsa 'aec SubtractorOutput
| CallHandleEchoPathChange EchoPathVariability

fun run ::
  "('f, 'gm, 'gs, 'rb, 'rsa, 'aec, 'dd, 'opt) collaborators
     \<Rightarrow> ('f, 'gm, 'gs, 'dd, 'opt) Subtractor \<Rightarrow> ('rb, 'rsa, 'aec) call list
     \<Rightarrow> error + ('f, 'gm, 'gs, 'dd, 'opt) Subtractor" where
  "run env sub [] = Inr sub"
| "run env sub (CallProcess render_buffer capture render_signal_analyzer aec_state output # cs) =
     (case Process env sub render_buffer capture render_signal_analyzer aec_state output of
        Inl err \<Rightarrow> Inl err
      | Inr (sub', output') \<Rightarrow> run env sub' cs)"
| "run env sub (CallHandleEchoPathChange echo_path_variability # cs) =
     run env (HandleEchoPathChange env echo_path_variability sub) cs"

section \<open>Notions of the specification\<close>

text \<open>
  The spec's energy of a block, in its words: the sum of the squared samples, as a
  real number.
\<close>

definition energy :: "float list \<Rightarrow> float" where
  "energy xs = (\<Sum>v\<leftarrow>xs. v * v)"

text \<open>
  The spec's echo-path-changed categories, in its words: flush, delay reset, newly
  detected delay, buffer readjustment.
\<close>

definition changed_category :: "DelayAdjustment \<Rightarrow> bool" where
  "changed_category d =
     (d = kBufferFlush \<or> d = kDelayReset \<or> d = kNewDetectedDelay \<or> d = kBufferReadjustment)"

text \<open>
  A call that respects the contract of its method: Process is called with a capture
  block of block-size samples.
\<close>

fun well_formed_call :: "('rb, 'rsa, 'aec) call \<Rightarrow> bool" where
  "well_formed_call (CallProcess rb capture rsa aec out) = (length capture = kBlockSize)"
| "well_formed_call (CallHandleEchoPathChange v) = True"

text \<open>A call of HandleEchoPathChange with an echo-path-changed category.\<close>

fun full_reset_call :: "('rb, 'rsa, 'aec) call \<Rightarrow> bool" where
  "full_reset_call (CallProcess rb capture rsa aec out) = False"
| "full_reset_call (CallHandleEchoPathChange v) = changed_category (delay_change v)"

section \<open>A concrete set of collaborators\<close>

text \<open>
  Small executable collaborators, on which the theorems below are run. The inverse
  transform puts 64 times the real part of the spectrum into the second half of its
  buffer, so that the scaled estimate is the real part itself. A filter is its
  partition count and one coefficient, and predicts the coefficient times the render
  block. The spectral sum of the render history over \<open>n\<close> partitions is \<open>n\<close> times the
  energy of the render block, so that sums for different counts differ. Both gain
  computers count their calls and return the spectral sum as the gain, and a filter
  adds the gain to its coefficient. The data dumper is the list of what was dumped.
\<close>

definition demo_fft :: Aec3Fft where
  "demo_fft =
     \<lparr>Ifft = (\<lambda>S. replicate kFftLengthBy2 0 @ map (\<lambda>x. x * real kFftLengthBy2) (re S)),
      ZeroPaddedFft = (\<lambda>e w.
         \<lparr>re = (case w of kRectangular \<Rightarrow> e | kHanning \<Rightarrow> map (\<lambda>x. x / 2) e),
          im = map (\<lambda>x. 0) e\<rparr>)\<rparr>"

definition demo_collaborators ::
  "(nat \<times> float, nat, nat, float list, unit, bool, (string \<times> float list) list, unit)
     collaborators" where
  "demo_collaborators =
     \<lparr>Filter = (\<lambda>f rb. \<lparr>re = map (\<lambda>x. snd f * x) rb, im = map (\<lambda>x. 0) rb\<rparr>),
      Adapt = (\<lambda>f rb G. (fst f, snd f + sum_list (re G))),
      SizePartitions = fst,
      DumpFilter = (\<lambda>f name dd. dd @ [(name, [snd f])]),
      filter_HandleEchoPathChange = (\<lambda>f. (fst f, 0)),
      G_main_Compute = (\<lambda>g X2 rsa out f sat. (Suc g, \<lparr>re = X2, im = map (\<lambda>x. 0) X2\<rparr>)),
      G_main_HandleEchoPathChange = (\<lambda>g v. if delay_change v = kBufferFlush then 0 else 1),
      G_shadow_Compute = (\<lambda>g X2 rsa E n sat. (Suc g, \<lparr>re = X2, im = map (\<lambda>x. 0) X2\<rparr>)),
      G_shadow_HandleEchoPathChange = (\<lambda>g. 0),
      SpectralSum = (\<lambda>rb n. [real n * sum_list (map (\<lambda>x. x * x) rb)]),
      Spectrum = (\<lambda>E opt. map2 (\<lambda>a b. a * a + b * b) (re E) (im E)),
      SaturatedCapture = (\<lambda>aec. aec),
      DumpRaw = (\<lambda>name v dd. dd @ [(name, v)])\<rparr>"

text \<open>A subtractor with the two filters and the converged flag as given.\<close>

definition demo_subtractor ::
  "nat \<times> float \<Rightarrow> nat \<times> float \<Rightarrow> bool
     \<Rightarrow> (nat \<times> float, nat, nat, (string \<times> float list) list, unit) Subtractor" where
  "demo_subtractor fm fs c =
     \<lparr>fft = demo_fft, data_dumper = [], optimization = (), main_filter = fm,
      shadow_filter = fs, G_main = 5, G_shadow = 7, converged_filter = c\<rparr>"

text \<open>An output record that holds zeros in every field.\<close>

definition demo_output :: SubtractorOutput where
  "demo_output =
     \<lparr>s_main = replicate kBlockSize 0, e_main = replicate kBlockSize 0,
      e_shadow = replicate kBlockSize 0,
      E_main = \<lparr>re = replicate kFftLengthBy2Plus1 0, im = replicate kFftLengthBy2Plus1 0\<rparr>,
      E_main_nonwindowed =
        \<lparr>re = replicate kFftLengthBy2Plus1 0, im = replicate kFftLengthBy2Plus1 0\<rparr>,
      E_shadow = \<lparr>re = replicate kFftLengthBy2Plus1 0, im = replicate kFftLengthBy2Plus1 0\<rparr>,
      E2_main = replicate kFftLengthBy2Plus1 0,
      E2_main_nonwindowed = replicate kFftLengthBy2Plus1 0,
      E2_shadow = replicate kFftLengthBy2Plus1 0\<rparr>"

section \<open>What a call of Process returns\<close>

lemma convergence_bound:
  "fp_mul round_binary32 (fp_mul round_binary32 (to_binary32 (real kBlockSize)) (to_binary32 50))
     (to_binary32 50) = Finite (real kBlockSize * 2500)"
  by (simp add: to_binary32_def round_binary32_def fp_round_def fp_exponent_def
      round_half_even_def pow2_def bit_length.simps Let_def kBlockSize_def kFftLengthBy2_def)

lemma fp_round_examples:
  "round_binary64 0.3 = Finite (5404319552844595 / 2 ^ 54)"
  "round_binary64 0.1 = Finite (3602879701896397 / 2 ^ 55)"
  "round_binary32 0.1 = Finite (13421773 / 2 ^ 27)"
  "round_binary32 16777217 = Finite 16777216"
  "round_binary32 16777219 = Finite 16777220"
  "round_binary32 (160000 + 1 / 256) = Finite 160000"
  "round_binary32 (3 / 2 ^ 150) = Finite (1 / 2 ^ 148)"
  "round_binary32 (10 ^ 39) = PInf"
  by (simp_all add: round_binary32_def round_binary64_def fp_round_def fp_exponent_def
      round_half_even_def pow2_def bit_length.simps Let_def)

lemma foldl_replicate_fixed: "f a z = a \<Longrightarrow> foldl f a (replicate n z) = a"
  by (induction n) simp_all

lemma Process_Inl:
  "length capture \<noteq> kBlockSize \<Longrightarrow>
   Process env sub rb capture rsa aec out = Inl FatalCheckFailure"
  by (auto simp: Process_def RTC_DCHECK_EQ_def)

lemma Process_Inr:
  "length capture = kBlockSize \<Longrightarrow>
   \<exists>sub' out'. Process env sub rb capture rsa aec out = Inr (sub', out')"
  by (simp add: Process_def RTC_DCHECK_EQ_def Let_def split: prod.splits)

lemma Process_e_main:
  "Process env sub rb capture rsa aec out = Inr (sub', out') \<Longrightarrow>
   e_main out' = fst (PredictionError (fft sub) (Filter env (main_filter sub) rb) capture
                        (e_main out) (Some (s_main out)))"
  by (auto simp: Process_def RTC_DCHECK_EQ_def Let_def split: prod.splits if_splits)

lemma Process_e_shadow:
  "Process env sub rb capture rsa aec out = Inr (sub', out') \<Longrightarrow>
   e_shadow out' = fst (PredictionError (fft sub) (Filter env (shadow_filter sub) rb) capture
                        (e_shadow out) None)"
  by (auto simp: Process_def RTC_DCHECK_EQ_def Let_def split: prod.splits if_splits)

lemma Process_converged_filter:
  "Process env sub rb capture rsa aec out = Inr (sub', out') \<Longrightarrow>
   converged_filter sub' =
     (if \<not> converged_filter sub then
        (if fp_gt (accumulated_energy capture) (Finite (real kBlockSize * 2500))
         then (fp_gt (accumulated_energy (e_main out'))
                 (fp_mul round_binary64 (round_binary64 0.3) (accumulated_energy capture))
               \<or> fp_gt (accumulated_energy (e_shadow out'))
                 (fp_mul round_binary64 (round_binary64 0.1) (accumulated_energy capture)))
         else converged_filter sub)
      else converged_filter sub)"
  by (auto simp: Process_def RTC_DCHECK_EQ_def Let_def convergence_bound
      split: prod.splits if_splits)

lemmas demo_defs =
  Process_def RTC_DCHECK_EQ_def PredictionError_def PredictionError_transform_def
  demo_fft_def kScale_def kFftLengthBy2_def kFftLengthBy2Plus1_def kFftLength_def
  kBlockSize_def SafeClamp_def Let_def demo_collaborators_def demo_subtractor_def
  demo_output_def energy_def o_def sum_list_replicate

lemmas fp_defs =
  accumulated_energy_def sum_of_squares_def to_binary32_def round_binary32_def
  round_binary64_def fp_round_def fp_exponent_def round_half_even_def pow2_def
  bit_length.simps foldl_replicate_fixed

section \<open>The convergence check\<close>

text \<open>
  Claim C1, as amended. A call of Process with a capture block of block-size samples
  returns. The energies of the check are the values that the source accumulates in
  binary32, every square and every sum rounded, and the products with \<open>0.3\<close> and
  \<open>0.1\<close> are formed in binary64. When the converged flag is false before the call,
  the flag can be true after it only if the accumulated capture energy \<open>y2\<close> is above
  block-size \<times> 2500, and with \<open>y2\<close> above that floor the flag is true after the call
  exactly when the accumulated energy of the main error block is above the product of
  \<open>0.3\<close> and \<open>y2\<close> or the accumulated energy of the shadow error block is above the
  product of \<open>0.1\<close> and \<open>y2\<close>. With \<open>y2\<close> not above the floor the flag is after the
  call what it was before, whatever the error energies are.
\<close>

theorem Process_convergence_check:
  assumes "length capture = kBlockSize"
  shows "\<exists>sub' out'. Process env sub rb capture rsa aec out = Inr (sub', out') \<and>
     (\<not> converged_filter sub \<longrightarrow>
        (converged_filter sub' \<longrightarrow>
           fp_gt (accumulated_energy capture) (Finite (real kBlockSize * 2500))) \<and>
        (fp_gt (accumulated_energy capture) (Finite (real kBlockSize * 2500)) \<longrightarrow>
           converged_filter sub' =
             (fp_gt (accumulated_energy (e_main out'))
                (fp_mul round_binary64 (round_binary64 0.3) (accumulated_energy capture))
              \<or> fp_gt (accumulated_energy (e_shadow out'))
                (fp_mul round_binary64 (round_binary64 0.1) (accumulated_energy capture))))) \<and>
     (\<not> fp_gt (accumulated_energy capture) (Finite (real kBlockSize * 2500)) \<longrightarrow>
        converged_filter sub' = converged_filter sub)"
proof -
  obtain sub' out'
    where P: "Process env sub rb capture rsa aec out = Inr (sub', out')"
    using Process_Inr [OF assms, of env sub rb rsa aec out] by auto
  show ?thesis
    using P Process_converged_filter [OF P] by auto
qed

theorem Process_convergence_check_witness:
  "length (1000 # replicate 63 (0::real)) = kBlockSize \<and>
   \<not> converged_filter (demo_subtractor (2, 0) (3, 0) False) \<and>
   accumulated_energy (1000 # replicate 63 0) = Finite 1000000 \<and>
   fp_gt (Finite 1000000) (Finite (real kBlockSize * 2500)) \<and>
   fp_mul round_binary64 (round_binary64 0.3) (Finite 1000000) = Finite 300000 \<and>
   (case Process demo_collaborators (demo_subtractor (2, 0) (3, 0) False) (1 # replicate 63 1)
           (1000 # replicate 63 0) () False demo_output of
      Inl _ \<Rightarrow> False
    | Inr (sub', out') \<Rightarrow> converged_filter sub' \<and> e_main out' = 1000 # replicate 63 0) \<and>
   length (10 # replicate 63 (0::real)) = kBlockSize \<and>
   accumulated_energy (10 # replicate 63 0) = Finite 100 \<and>
   \<not> fp_gt (Finite 100) (Finite (real kBlockSize * 2500)) \<and>
   (case Process demo_collaborators (demo_subtractor (2, 0) (3, 0) False) (1 # replicate 63 1)
           (10 # replicate 63 0) () False demo_output of
      Inl _ \<Rightarrow> False
    | Inr (sub', out') \<Rightarrow> converged_filter sub' = False \<and> e_main out' = 10 # replicate 63 0)"
  using Process_convergence_check [of "1000 # replicate 63 0" demo_collaborators
      "demo_subtractor (2, 0) (3, 0) False" "1 # replicate 63 1" "()" False demo_output]
    Process_convergence_check [of "10 # replicate 63 0" demo_collaborators
      "demo_subtractor (2, 0) (3, 0) False" "1 # replicate 63 1" "()" False demo_output]
  by (simp add: demo_defs fp_defs)

text \<open>
  Claim C1 as stated, with the energies as the real sums of the squared samples, fails.
  The capture block has the samples \<open>400\<close> and \<open>1/16\<close> and 62 zeros, both filters
  predict zero and the flag is false. The real capture energy \<open>160000 + 1/256\<close> is
  above the floor \<open>160000\<close>, and the real energy of the main error block, which is the
  capture block, is above \<open>0.3\<close> times it; but the sum \<open>160000 + 1/256\<close> rounds to
  \<open>160000\<close> in binary32, the accumulated energy is not above the floor, and the flag
  is false after the call.
\<close>

theorem Process_convergence_check_counterexample:
  "length (400 # 1 / 16 # replicate 62 (0::real)) = kBlockSize \<and>
   \<not> converged_filter (demo_subtractor (2, 0) (3, 0) False) \<and>
   energy (400 # 1 / 16 # replicate 62 0) > real kBlockSize * 2500 \<and>
   accumulated_energy (400 # 1 / 16 # replicate 62 0) = Finite 160000 \<and>
   (case Process demo_collaborators (demo_subtractor (2, 0) (3, 0) False)
           (1 # 1 # replicate 62 1) (400 # 1 / 16 # replicate 62 0) () False demo_output of
      Inl _ \<Rightarrow> False
    | Inr (sub', out') \<Rightarrow>
        energy (e_main out') > 0.3 * energy (400 # 1 / 16 # replicate 62 0) \<and>
        \<not> converged_filter sub')"
  by (simp add: demo_defs fp_defs)

section \<open>The converged flag over a sequence of calls\<close>

lemma Process_keeps_converged:
  "Process env sub rb capture rsa aec out = Inr (sub', out') \<Longrightarrow> converged_filter sub
   \<Longrightarrow> converged_filter sub'"
  by (simp add: Process_converged_filter)

lemma HandleEchoPathChange_unchanged:
  "\<not> changed_category (delay_change v) \<Longrightarrow> HandleEchoPathChange env v sub = sub"
  by (simp add: HandleEchoPathChange_def changed_category_def)

lemma HandleEchoPathChange_changed:
  "changed_category (delay_change v) \<Longrightarrow> HandleEchoPathChange env v sub = full_reset env v sub"
  by (auto simp: HandleEchoPathChange_def changed_category_def)

lemma run_returns:
  "list_all well_formed_call cs \<Longrightarrow> \<exists>sub'. run env sub cs = Inr sub'"
proof (induction cs arbitrary: sub)
  case Nil
  show ?case by simp
next
  case (Cons c cs)
  show ?case
  proof (cases c)
    case (CallProcess rb capture rsa aec out)
    with Cons.prems have len: "length capture = kBlockSize" by simp
    obtain sub1 out1 where P: "Process env sub rb capture rsa aec out = Inr (sub1, out1)"
      using Process_Inr [OF len, of env sub rb rsa aec out] by auto
    have "\<exists>sub'. run env sub1 cs = Inr sub'"
      using Cons.IH Cons.prems by simp
    then show ?thesis using P CallProcess by simp
  next
    case (CallHandleEchoPathChange v)
    have "\<exists>sub'. run env (HandleEchoPathChange env v sub) cs = Inr sub'"
      using Cons.IH Cons.prems by simp
    then show ?thesis using CallHandleEchoPathChange by simp
  qed
qed

lemma run_keeps_converged:
  "run env sub cs = Inr sub' \<Longrightarrow> converged_filter sub \<Longrightarrow> \<not> list_ex full_reset_call cs
   \<Longrightarrow> converged_filter sub'"
proof (induction cs arbitrary: sub)
  case Nil
  then show ?case by simp
next
  case (Cons c cs)
  show ?case
  proof (cases c)
    case (CallProcess rb capture rsa aec out)
    from Cons.prems(1) CallProcess obtain sub1 out1
      where P: "Process env sub rb capture rsa aec out = Inr (sub1, out1)"
        and R: "run env sub1 cs = Inr sub'"
      by (auto split: sum.splits)
    have "converged_filter sub1"
      using Process_keeps_converged [OF P] Cons.prems(2) by simp
    then show ?thesis
      using Cons.IH [OF R] Cons.prems(3) by simp
  next
    case (CallHandleEchoPathChange v)
    with Cons.prems(3) have "\<not> changed_category (delay_change v)" by simp
    then have "HandleEchoPathChange env v sub = sub"
      by (rule HandleEchoPathChange_unchanged)
    then have "run env sub cs = Inr sub'"
      using Cons.prems(1) CallHandleEchoPathChange by simp
    then show ?thesis
      using Cons.IH Cons.prems(2,3) by simp
  qed
qed

text \<open>
  Claim C2. The converged flag is sticky. From a subtractor whose flag is true, every
  sequence of calls of Process and HandleEchoPathChange that respects the contract of
  Process runs to its end, and when a sequence runs to its end without a call of
  HandleEchoPathChange with an echo-path-changed category, the flag is true after it:
  Process never clears the flag, and neither does HandleEchoPathChange with the
  category of no change.
\<close>

theorem converged_filter_sticky:
  assumes "converged_filter sub"
  shows "(list_all well_formed_call cs \<longrightarrow> (\<exists>sub'. run env sub cs = Inr sub')) \<and>
         (\<forall>sub'. run env sub cs = Inr sub' \<and> \<not> list_ex full_reset_call cs
            \<longrightarrow> converged_filter sub')"
  using assms run_returns [of cs env sub] run_keeps_converged [of env sub cs] by blast

theorem converged_filter_sticky_witness:
  "converged_filter (demo_subtractor (2, 0) (3, 0) True) \<and>
   list_all well_formed_call
     [CallProcess (replicate 64 1) (replicate 64 100) () False demo_output,
      CallHandleEchoPathChange \<lparr>delay_change = kNone\<rparr>,
      CallProcess (replicate 64 1) (replicate 64 0) () False demo_output] \<and>
   \<not> list_ex full_reset_call
     [CallProcess (replicate 64 1) (replicate 64 100) () False demo_output,
      CallHandleEchoPathChange \<lparr>delay_change = kNone\<rparr>,
      CallProcess (replicate 64 1) (replicate 64 0) () False demo_output] \<and>
   (case run demo_collaborators (demo_subtractor (2, 0) (3, 0) True)
      [CallProcess (replicate 64 1) (replicate 64 100) () False demo_output,
       CallHandleEchoPathChange \<lparr>delay_change = kNone\<rparr>,
       CallProcess (replicate 64 1) (replicate 64 0) () False demo_output] of
      Inl _ \<Rightarrow> False
    | Inr sub' \<Rightarrow> converged_filter sub')"
  using converged_filter_sticky [of "demo_subtractor (2, 0) (3, 0) True"
      "[CallProcess (replicate 64 1) (replicate 64 100) () False demo_output,
        CallHandleEchoPathChange \<lparr>delay_change = kNone\<rparr>,
        CallProcess (replicate 64 1) (replicate 64 0) () False demo_output]"
      demo_collaborators]
  by (simp add: demo_defs HandleEchoPathChange_def changed_category_def)

section \<open>The prediction-error stage: clipping and scaling\<close>

lemma SafeClamp_range: "lo \<le> hi \<Longrightarrow> lo \<le> SafeClamp x lo hi \<and> SafeClamp x lo hi \<le> hi"
  by (simp add: SafeClamp_def)

lemma PredictionError_fst:
  "fst (PredictionError fft_arg S y e s) =
     map (\<lambda>a. SafeClamp a (- 32768) 32767) (PredictionError_transform y (Ifft fft_arg S) e)"
  by (simp add: PredictionError_def Let_def)

lemma PredictionError_snd:
  "snd (PredictionError fft_arg S y e (Some s0)) =
     Some (map (\<lambda>k. kScale * Ifft fft_arg S ! (k + kFftLengthBy2)) [0..<kBlockSize])"
  by (simp add: PredictionError_def Let_def)

lemma length_PredictionError_transform:
  "length e \<le> length (PredictionError_transform y tmp e)"
  by (simp add: PredictionError_transform_def Let_def)

lemma PredictionError_transform_nth:
  assumes "length y = kBlockSize" and "length tmp = kFftLength" and "i < kBlockSize"
  shows "PredictionError_transform y tmp e ! i = y ! i - tmp ! (kFftLengthBy2 + i) * kScale"
  using assms
  by (simp add: PredictionError_transform_def Let_def nth_append kBlockSize_def kFftLength_def)

text \<open>
  Claim C3. Whatever the frequency-domain estimate \<open>S\<close>, the capture block \<open>y\<close> and the
  old contents of \<open>e\<close> are, the error block that the prediction-error stage produces
  has all the samples of the array \<open>e\<close>, and every sample of it lies in the closed range
  from \<open>-32768\<close> to \<open>32767\<close>.
\<close>

theorem PredictionError_clipped:
  "length e \<le> length (fst (PredictionError fft_arg S y e s)) \<and>
   (\<forall>x\<in>set (fst (PredictionError fft_arg S y e s)). - 32768 \<le> x \<and> x \<le> 32767)"
proof -
  have "length e \<le> length (fst (PredictionError fft_arg S y e s))"
    by (simp add: PredictionError_fst length_PredictionError_transform)
  moreover have "\<forall>x\<in>set (fst (PredictionError fft_arg S y e s)). - 32768 \<le> x \<and> x \<le> 32767"
    using SafeClamp_range [of "- 32768" 32767] by (auto simp: PredictionError_fst)
  ultimately show ?thesis by simp
qed

theorem PredictionError_clipped_witness:
  "length (replicate 64 (0::real))
     \<le> length (fst (PredictionError demo_fft \<lparr>re = replicate 64 (- 1000000), im = []\<rparr>
                       (replicate 64 1000000) (replicate 64 0) None)) \<and>
   fst (PredictionError demo_fft \<lparr>re = replicate 64 (- 1000000), im = []\<rparr>
          (replicate 64 1000000) (replicate 64 0) None) ! 0 = 32767 \<and>
   fst (PredictionError demo_fft \<lparr>re = replicate 64 1000000, im = []\<rparr>
          (replicate 64 (- 1000000)) (replicate 64 0) None) ! 0 = - 32768"
  using PredictionError_clipped [of "replicate 64 0" demo_fft
      "\<lparr>re = replicate 64 (- 1000000), im = []\<rparr>" "replicate 64 1000000" None]
  by (simp add: demo_defs)

text \<open>
  Claim C4, as amended. The inverse-transform buffer has 2 \<times> block-size samples and the
  capture block has block-size samples. Then for every sample index \<open>i\<close> the error
  before the clip is \<open>y[i]\<close> minus the \<open>i\<close>-th sample of the second half of the buffer
  scaled by 1/block-size (the source's \<^verbatim>\<open>1.0f / kFftLengthBy2\<close>), not by
  1/(2 \<times> block-size); the error sample is the clip of that difference; and an
  echo-estimate output that is requested receives exactly the second-half samples
  scaled by 1/block-size, while no output is written when none is requested.
\<close>

theorem PredictionError_scaling:
  assumes "length y = kBlockSize" and "length (Ifft fft_arg S) = kFftLength"
    and "i < kBlockSize"
  shows "PredictionError_transform y (Ifft fft_arg S) e ! i =
           y ! i - Ifft fft_arg S ! (kFftLengthBy2 + i) * (1 / real kBlockSize) \<and>
         fst (PredictionError fft_arg S y e s) ! i =
           SafeClamp (y ! i - Ifft fft_arg S ! (kFftLengthBy2 + i) * (1 / real kBlockSize))
             (- 32768) 32767 \<and>
         snd (PredictionError fft_arg S y e (Some s0)) =
           Some (map (\<lambda>k. Ifft fft_arg S ! (kFftLengthBy2 + k) * (1 / real kBlockSize))
                   [0..<kBlockSize]) \<and>
         snd (PredictionError fft_arg S y e None) = None"
proof -
  have sc: "kScale = 1 / real kBlockSize"
    by (simp add: kScale_def kBlockSize_def)
  have pre: "PredictionError_transform y (Ifft fft_arg S) e ! i =
           y ! i - Ifft fft_arg S ! (kFftLengthBy2 + i) * (1 / real kBlockSize)"
    using PredictionError_transform_nth [OF assms] by (simp only: sc)
  have len: "i < length (PredictionError_transform y (Ifft fft_arg S) e)"
    using assms by (simp add: PredictionError_transform_def Let_def kBlockSize_def kFftLength_def)
  have clip: "fst (PredictionError fft_arg S y e s) ! i =
           SafeClamp (y ! i - Ifft fft_arg S ! (kFftLengthBy2 + i) * (1 / real kBlockSize))
             (- 32768) 32767"
    using len pre by (simp add: PredictionError_fst)
  have est: "snd (PredictionError fft_arg S y e (Some s0)) =
           Some (map (\<lambda>k. Ifft fft_arg S ! (kFftLengthBy2 + k) * (1 / real kBlockSize))
                   [0..<kBlockSize])"
    by (simp add: PredictionError_snd sc add.commute mult.commute)
  have none: "snd (PredictionError fft_arg S y e None) = None"
    by (simp add: PredictionError_def Let_def)
  show ?thesis using pre clip est none by simp
qed

theorem PredictionError_scaling_witness:
  "length (replicate 64 (10::real)) = kBlockSize \<and>
   length (Ifft demo_fft \<lparr>re = replicate 64 3, im = []\<rparr>) = kFftLength \<and>
   (0::nat) < kBlockSize \<and>
   Ifft demo_fft \<lparr>re = replicate 64 3, im = []\<rparr> ! (kFftLengthBy2 + 0) = 192 \<and>
   PredictionError_transform (replicate 64 10) (Ifft demo_fft \<lparr>re = replicate 64 3, im = []\<rparr>)
       (replicate 64 0) ! 0 = 7 \<and>
   fst (PredictionError demo_fft \<lparr>re = replicate 64 3, im = []\<rparr> (replicate 64 10)
          (replicate 64 0) None) ! 0 = 7"
  using PredictionError_scaling [of "replicate 64 10" demo_fft "\<lparr>re = replicate 64 3, im = []\<rparr>"
      0 "replicate 64 0" None "replicate 64 0"]
  by (simp add: demo_defs nth_append)

text \<open>
  Claim C4 as stated fails. With a capture block of 64 samples 10 and a second half of
  the buffer of 64 samples 192, the error before the clip is \<open>10 - 192/64 = 7\<close>, and
  not \<open>10 - 192/128\<close>, the value with the scale 1/(2 \<times> block-size).
\<close>

theorem PredictionError_scaling_counterexample:
  "PredictionError_transform (replicate 64 10) (Ifft demo_fft \<lparr>re = replicate 64 3, im = []\<rparr>)
       (replicate 64 0) ! 0
   \<noteq> replicate 64 10 ! 0
       - Ifft demo_fft \<lparr>re = replicate 64 3, im = []\<rparr> ! (kFftLengthBy2 + 0)
           * (1 / (2 * real kBlockSize))"
  by (simp add: demo_defs nth_append)

section \<open>The echo-path change\<close>

text \<open>
  Claim C6. Whatever the subtractor is before the call, HandleEchoPathChange with each
  of the four echo-path-changed categories does the same: it has both filters handle
  the change, has the main gain computer handle it with the variability as argument
  and the shadow gain computer handle it with no argument, and sets the converged flag
  to false. Nothing else of the subtractor changes.
\<close>

theorem HandleEchoPathChange_full_reset:
  assumes "changed_category (delay_change v)"
  shows "HandleEchoPathChange env v sub =
     sub\<lparr>main_filter := filter_HandleEchoPathChange env (main_filter sub),
         shadow_filter := filter_HandleEchoPathChange env (shadow_filter sub),
         G_main := G_main_HandleEchoPathChange env (G_main sub) v,
         G_shadow := G_shadow_HandleEchoPathChange env (G_shadow sub),
         converged_filter := False\<rparr>"
  using assms by (simp add: HandleEchoPathChange_changed full_reset_def)

theorem HandleEchoPathChange_full_reset_witness:
  "changed_category (delay_change \<lparr>delay_change = kNewDetectedDelay\<rparr>) \<and>
   HandleEchoPathChange demo_collaborators \<lparr>delay_change = kNewDetectedDelay\<rparr>
       (demo_subtractor (2, 5) (3, 7) True) =
     \<lparr>fft = demo_fft, data_dumper = [], optimization = (), main_filter = (2, 0),
      shadow_filter = (3, 0), G_main = 1, G_shadow = 0, converged_filter = False\<rparr> \<and>
   HandleEchoPathChange demo_collaborators \<lparr>delay_change = kBufferFlush\<rparr>
       (demo_subtractor (2, 5) (3, 7) True) =
     \<lparr>fft = demo_fft, data_dumper = [], optimization = (), main_filter = (2, 0),
      shadow_filter = (3, 0), G_main = 0, G_shadow = 0, converged_filter = False\<rparr>"
  using HandleEchoPathChange_full_reset [of "\<lparr>delay_change = kNewDetectedDelay\<rparr>"
      demo_collaborators "demo_subtractor (2, 5) (3, 7) True"]
    HandleEchoPathChange_full_reset [of "\<lparr>delay_change = kBufferFlush\<rparr>"
      demo_collaborators "demo_subtractor (2, 5) (3, 7) True"]
  by (simp add: changed_category_def demo_collaborators_def demo_subtractor_def)

text \<open>
  Claim C7. Whatever the subtractor is before the call, HandleEchoPathChange with the
  category of no change returns the subtractor as it was: the converged flag, both
  filters, both gain computers and every other member are unchanged.
\<close>

theorem HandleEchoPathChange_no_change:
  assumes "delay_change v = kNone"
  shows "HandleEchoPathChange env v sub = sub"
  using assms by (simp add: HandleEchoPathChange_def)

theorem HandleEchoPathChange_no_change_witness:
  "delay_change \<lparr>delay_change = kNone\<rparr> = kNone \<and>
   HandleEchoPathChange demo_collaborators \<lparr>delay_change = kNone\<rparr>
       (demo_subtractor (2, 5) (3, 7) True) =
     \<lparr>fft = demo_fft, data_dumper = [], optimization = (), main_filter = (2, 5),
      shadow_filter = (3, 7), G_main = 5, G_shadow = 7, converged_filter = True\<rparr>"
  using HandleEchoPathChange_no_change [of "\<lparr>delay_change = kNone\<rparr>"
      demo_collaborators "demo_subtractor (2, 5) (3, 7) True"]
  by (simp add: demo_subtractor_def)

section \<open>The contract of Process\<close>

text \<open>
  Claim C8. Process requires a capture block of exactly block-size samples. A call
  with a capture block of any other length is the fatal failure of the check at the
  head of the method: the call returns no subtractor and no output. A call with a
  capture block of block-size samples returns both.
\<close>

theorem Process_capture_length:
  "(length capture \<noteq> kBlockSize \<longrightarrow>
      Process env sub rb capture rsa aec out = Inl FatalCheckFailure) \<and>
   (length capture = kBlockSize \<longrightarrow>
      (\<exists>sub' out'. Process env sub rb capture rsa aec out = Inr (sub', out')))"
  using Process_Inl [of capture env sub rb rsa aec out]
    Process_Inr [of capture env sub rb rsa aec out] by blast

theorem Process_capture_length_witness:
  "length (replicate 63 (100::real)) \<noteq> kBlockSize \<and>
   Process demo_collaborators (demo_subtractor (2, 0) (3, 0) False) (replicate 64 1)
     (replicate 63 100) () False demo_output = Inl FatalCheckFailure \<and>
   length (replicate 65 (100::real)) \<noteq> kBlockSize \<and>
   Process demo_collaborators (demo_subtractor (2, 0) (3, 0) False) (replicate 64 1)
     (replicate 65 100) () False demo_output = Inl FatalCheckFailure \<and>
   length (replicate 64 (100::real)) = kBlockSize \<and>
   (case Process demo_collaborators (demo_subtractor (2, 0) (3, 0) False) (replicate 64 1)
           (replicate 64 100) () False demo_output of
      Inl _ \<Rightarrow> False
    | Inr (sub', out') \<Rightarrow> e_main out' = replicate 64 100)"
  using Process_capture_length [of "replicate 63 100" demo_collaborators
      "demo_subtractor (2, 0) (3, 0) False" "replicate 64 1" "()" False demo_output]
    Process_capture_length [of "replicate 65 100" demo_collaborators
      "demo_subtractor (2, 0) (3, 0) False" "replicate 64 1" "()" False demo_output]
    Process_capture_length [of "replicate 64 100" demo_collaborators
      "demo_subtractor (2, 0) (3, 0) False" "replicate 64 1" "()" False demo_output]
  by (simp add: demo_defs)

section \<open>The outputs and the adaptation of Process\<close>

lemma Process_length:
  "Process env sub rb capture rsa aec out = Inr r \<Longrightarrow> length capture = kBlockSize"
  by (cases "length capture = kBlockSize") (simp_all add: Process_Inl)

lemma Process_s_main:
  "Process env sub rb capture rsa aec out = Inr (sub', out') \<Longrightarrow>
   Some (s_main out') =
     snd (PredictionError (fft sub) (Filter env (main_filter sub) rb) capture
            (e_main out) (Some (s_main out)))"
  by (auto simp: Process_def RTC_DCHECK_EQ_def Let_def PredictionError_def
      split: prod.splits if_splits)

lemma Process_E_shadow:
  "Process env sub rb capture rsa aec out = Inr (sub', out') \<Longrightarrow>
   E_shadow out' = E_shadow out \<and>
   E2_shadow out' =
     Spectrum env (ZeroPaddedFft (fft sub) (e_shadow out') kHanning) (optimization sub)"
  by (auto simp: Process_def RTC_DCHECK_EQ_def Let_def split: prod.splits if_splits)

lemma Process_main_filter:
  "Process env sub rb capture rsa aec out = Inr (sub', out') \<Longrightarrow>
   main_filter sub' =
     Adapt env (main_filter sub) rb
       (snd (G_main_Compute env (G_main sub)
               (SpectralSum env rb (SizePartitions env (main_filter sub))) rsa out'
               (main_filter sub) (SaturatedCapture env aec)))"
  by (auto simp: Process_def RTC_DCHECK_EQ_def Let_def split: prod.splits if_splits)

lemma Process_shadow_filter:
  assumes P: "Process env sub rb capture rsa aec out = Inr (sub', out')"
  shows "shadow_filter sub' =
     Adapt env (shadow_filter sub) rb
       (snd (G_shadow_Compute env (G_shadow sub)
               (if SizePartitions env (shadow_filter sub) \<noteq> SizePartitions env (main_filter sub')
                then SpectralSum env rb (SizePartitions env (shadow_filter sub))
                else SpectralSum env rb (SizePartitions env (main_filter sub)))
               rsa (ZeroPaddedFft (fft sub) (e_shadow out') kHanning)
               (SizePartitions env (shadow_filter sub)) (SaturatedCapture env aec)))"
proof -
  have len: "kBlockSize = length capture"
    using Process_length [OF P] by simp
  show ?thesis
    using P unfolding Process_def RTC_DCHECK_EQ_def
    by (simp add: len Let_def case_prod_beta) (auto simp: Let_def case_prod_beta)
qed

text \<open>
  Claim C5. A call of Process with a capture block of block-size samples returns, and
  the main filter after it is the main filter adapted with the main gain. When the
  partition count of the shadow filter differs from the partition count of the main
  filter (the count that the main filter has after its adaptation, which is the one
  that the source compares), the shadow filter after the call is the shadow filter
  adapted with the gain that the shadow gain computer computes from the spectral sum
  of the render history queried for the partition count of the shadow filter.
\<close>

theorem Process_shadow_gain_spectral_sum:
  assumes "length capture = kBlockSize"
  shows "\<exists>sub' out'. Process env sub rb capture rsa aec out = Inr (sub', out') \<and>
     main_filter sub' =
       Adapt env (main_filter sub) rb
         (snd (G_main_Compute env (G_main sub)
                 (SpectralSum env rb (SizePartitions env (main_filter sub))) rsa out'
                 (main_filter sub) (SaturatedCapture env aec))) \<and>
     (SizePartitions env (shadow_filter sub) \<noteq> SizePartitions env (main_filter sub') \<longrightarrow>
        shadow_filter sub' =
          Adapt env (shadow_filter sub) rb
            (snd (G_shadow_Compute env (G_shadow sub)
                    (SpectralSum env rb (SizePartitions env (shadow_filter sub))) rsa
                    (ZeroPaddedFft (fft sub) (e_shadow out') kHanning)
                    (SizePartitions env (shadow_filter sub)) (SaturatedCapture env aec))))"
proof -
  obtain sub' out'
    where P: "Process env sub rb capture rsa aec out = Inr (sub', out')"
    using Process_Inr [OF assms, of env sub rb rsa aec out] by auto
  show ?thesis
    using P Process_shadow_filter [OF P] Process_main_filter [OF P] by auto
qed

theorem Process_shadow_gain_spectral_sum_witness:
  "length (replicate 64 (100::real)) = kBlockSize \<and>
   SpectralSum demo_collaborators (replicate 64 1) 2 = [128] \<and>
   SpectralSum demo_collaborators (replicate 64 1) 3 = [192] \<and>
   SizePartitions demo_collaborators (shadow_filter (demo_subtractor (2, 0) (3, 0) False)) = 3 \<and>
   (case Process demo_collaborators (demo_subtractor (2, 0) (3, 0) False) (replicate 64 1)
           (replicate 64 100) () False demo_output of
      Inl _ \<Rightarrow> False
    | Inr (sub', out') \<Rightarrow>
        SizePartitions demo_collaborators (main_filter sub') = 2 \<and>
        main_filter sub' = (2, 128) \<and> shadow_filter sub' = (3, 192))"
  using Process_shadow_gain_spectral_sum [of "replicate 64 100" demo_collaborators
      "demo_subtractor (2, 0) (3, 0) False" "replicate 64 1" "()" False demo_output]
  by (simp add: demo_defs)

text \<open>
  Claim C9, as amended. A call of Process with a capture block of block-size samples
  returns. The windowed error spectrum of the shadow filter is a local of Process: the
  output record receives its power spectrum, in the field \<open>E2_shadow\<close>, and the field
  \<open>E_shadow\<close> of the output record is after the call what it was before.
\<close>

theorem Process_E_shadow_local:
  assumes "length capture = kBlockSize"
  shows "\<exists>sub' out'. Process env sub rb capture rsa aec out = Inr (sub', out') \<and>
     E_shadow out' = E_shadow out \<and>
     E2_shadow out' =
       Spectrum env (ZeroPaddedFft (fft sub) (e_shadow out') kHanning) (optimization sub)"
proof -
  obtain sub' out'
    where P: "Process env sub rb capture rsa aec out = Inr (sub', out')"
    using Process_Inr [OF assms, of env sub rb rsa aec out] by auto
  show ?thesis
    using P Process_E_shadow [OF P] by auto
qed

theorem Process_E_shadow_local_witness:
  "length (replicate 64 (100::real)) = kBlockSize \<and>
   (case Process demo_collaborators (demo_subtractor (2, 0) (3, 0) False) (replicate 64 1)
           (replicate 64 100) () False demo_output of
      Inl _ \<Rightarrow> False
    | Inr (sub', out') \<Rightarrow>
        E_shadow out' = E_shadow demo_output \<and> E2_shadow out' = replicate 64 2500)"
  using Process_E_shadow_local [of "replicate 64 100" demo_collaborators
      "demo_subtractor (2, 0) (3, 0) False" "replicate 64 1" "()" False demo_output]
  by (simp add: demo_defs)

text \<open>
  Claim C9 as stated fails. With shadow filter coefficient 0 and a capture block of 64
  samples 100, the shadow error block is the capture block and its windowed spectrum,
  under the concrete transform, has the real part 50; the field \<open>E_shadow\<close> of the
  output record holds after the call the zeros that it held before.
\<close>

theorem Process_E_shadow_counterexample:
  "(case Process demo_collaborators (demo_subtractor (2, 0) (3, 0) False) (replicate 64 1)
           (replicate 64 100) () False demo_output of
      Inl _ \<Rightarrow> False
    | Inr (sub', out') \<Rightarrow>
        ZeroPaddedFft demo_fft (e_shadow out') kHanning
          = \<lparr>re = replicate 64 50, im = replicate 64 0\<rparr> \<and>
        E_shadow out' = \<lparr>re = replicate 65 0, im = replicate 65 0\<rparr> \<and>
        E_shadow out' \<noteq> ZeroPaddedFft demo_fft (e_shadow out') kHanning)"
  by (simp add: demo_defs)

text \<open>
  Claim C10. The clip of the prediction-error stage is not applied to the echo
  estimate. A call of Process with a capture block of block-size samples returns, and
  the field \<open>s_main\<close> of the output record holds the samples of the second half of
  the inverse transform of the main filter's estimate, scaled and not clipped: where
  such a sample is above \<open>32767\<close> times the inverse of the scale, the sample of
  \<open>s_main\<close> is above \<open>32767\<close>, and where it is below \<open>-32768\<close> times the inverse of
  the scale, the sample of \<open>s_main\<close> is below \<open>-32768\<close>. The concrete call below
  has such an estimate.
\<close>

theorem Process_s_main_not_clipped:
  assumes "length capture = kBlockSize"
  shows "\<exists>sub' out'. Process env sub rb capture rsa aec out = Inr (sub', out') \<and>
     s_main out' =
       map (\<lambda>k. kScale * Ifft (fft sub) (Filter env (main_filter sub) rb) ! (k + kFftLengthBy2))
         [0..<kBlockSize] \<and>
     (\<forall>k<kBlockSize.
        (32767 * real kFftLengthBy2
           < Ifft (fft sub) (Filter env (main_filter sub) rb) ! (k + kFftLengthBy2)
         \<longrightarrow> 32767 < s_main out' ! k) \<and>
        (Ifft (fft sub) (Filter env (main_filter sub) rb) ! (k + kFftLengthBy2)
           < - 32768 * real kFftLengthBy2
         \<longrightarrow> s_main out' ! k < - 32768))"
proof -
  obtain sub' out'
    where P: "Process env sub rb capture rsa aec out = Inr (sub', out')"
    using Process_Inr [OF assms, of env sub rb rsa aec out] by auto
  let ?tmp = "Ifft (fft sub) (Filter env (main_filter sub) rb)"
  have s: "s_main out' = map (\<lambda>k. kScale * ?tmp ! (k + kFftLengthBy2)) [0..<kBlockSize]"
    using Process_s_main [OF P] by (simp add: PredictionError_snd)
  have hi: "32767 < s_main out' ! k"
    if "k < kBlockSize" and "32767 * real kFftLengthBy2 < ?tmp ! (k + kFftLengthBy2)" for k
    using that by (simp add: s kScale_def kFftLengthBy2_def)
  have lo: "s_main out' ! k < - 32768"
    if "k < kBlockSize" and "?tmp ! (k + kFftLengthBy2) < - 32768 * real kFftLengthBy2" for k
    using that by (simp add: s kScale_def kFftLengthBy2_def)
  show ?thesis
    using P s hi lo by blast
qed

theorem Process_s_main_not_clipped_witness:
  "length (replicate 64 (0::real)) = kBlockSize \<and>
   (0::nat) < kBlockSize \<and>
   32767 * real kFftLengthBy2
     < Ifft demo_fft (Filter demo_collaborators (2, 40000) (replicate 64 1)) ! (0 + kFftLengthBy2) \<and>
   (case Process demo_collaborators (demo_subtractor (2, 40000) (3, 0) False) (replicate 64 1)
           (replicate 64 0) () False demo_output of
      Inl _ \<Rightarrow> False
    | Inr (sub', out') \<Rightarrow>
        s_main out' ! 0 = 40000 \<and> e_main out' ! 0 = - 32768) \<and>
   Ifft demo_fft (Filter demo_collaborators (2, - 40000) (replicate 64 1)) ! (0 + kFftLengthBy2)
     < - 32768 * real kFftLengthBy2 \<and>
   (case Process demo_collaborators (demo_subtractor (2, - 40000) (3, 0) False) (replicate 64 1)
           (replicate 64 0) () False demo_output of
      Inl _ \<Rightarrow> False
    | Inr (sub', out') \<Rightarrow>
        s_main out' ! 0 = - 40000 \<and> e_main out' ! 0 = 32767)"
  using Process_s_main_not_clipped [of "replicate 64 0" demo_collaborators
      "demo_subtractor (2, 40000) (3, 0) False" "replicate 64 1" "()" False demo_output]
    Process_s_main_not_clipped [of "replicate 64 0" demo_collaborators
      "demo_subtractor (2, - 40000) (3, 0) False" "replicate 64 1" "()" False demo_output]
  by (simp add: demo_defs nth_append)

end
